theory Spec2Isabelle
  imports Complex_Main "HOL-Library.Sublist"
begin

section \<open>Python primitives used by ytdlp\_services.py\<close>

text \<open>
  Strings are \<open>char list\<close>; the model covers ASCII text. \<open>str.lower\<close>, \<open>str.strip\<close>,
  \<open>str.isdigit\<close> and \<open>int\<close> are modelled on ASCII characters: a byte outside ASCII is
  neither a letter, a digit nor white space here.
\<close>

definition py_lower_char :: "char \<Rightarrow> char" where
  "py_lower_char c =
     (case map_of (zip ''ABCDEFGHIJKLMNOPQRSTUVWXYZ'' ''abcdefghijklmnopqrstuvwxyz'') c of
        None \<Rightarrow> c | Some d \<Rightarrow> d)"

definition py_lower :: "string \<Rightarrow> string" where
  "py_lower s = map py_lower_char s"

text \<open>White space as \<open>str.isspace\<close> sees it on ASCII: TAB, LF, VT, FF, CR, FS, GS, RS, US, SP.\<close>

definition py_isspace_char :: "char \<Rightarrow> bool" where
  "py_isspace_char c =
     (c \<in> set [CHR 0x09, CHR 0x0A, CHR 0x0B, CHR 0x0C, CHR 0x0D,
                CHR 0x1C, CHR 0x1D, CHR 0x1E, CHR 0x1F, CHR 0x20])"

definition py_strip :: "string \<Rightarrow> string" where
  "py_strip s = rev (dropWhile py_isspace_char (rev (dropWhile py_isspace_char s)))"

definition digit_of :: "char \<Rightarrow> nat option" where
  "digit_of c = map_of (zip ''0123456789'' [0, 1, 2, 3, 4, 5, 6, 7, 8, 9]) c"

definition py_isdigit :: "string \<Rightarrow> bool" where
  "py_isdigit s = (s \<noteq> [] \<and> list_all (\<lambda>c. digit_of c \<noteq> None) s)"

text \<open>\<open>needle in haystack\<close> on strings: substring containment.\<close>

fun py_in :: "string \<Rightarrow> string \<Rightarrow> bool" where
  "py_in n [] = (n = [])"
| "py_in n (h # hs) = (prefix n (h # hs) \<or> py_in n hs)"

definition py_endswith :: "string \<Rightarrow> string \<Rightarrow> bool" where
  "py_endswith s t = suffix t s"

text \<open>
  Exception messages. A message built by an f-string from a set (whose printing order
  Python does not fix) keeps its parts: \<open>Available prefix codec codecs\<close> is
  \<open>f"{prefix} '{codec}'. Available: {list(set(...))}"\<close>, and \<open>Wrapped prefix m\<close> is
  \<open>f"{prefix}{str(e)}"\<close>.
\<close>

datatype message =
    Plain string
  | Available string "string option" "string option set"
  | Wrapped string message

datatype py_error =
    DownloadError string
  | ValueError message
  | AttributeError message
  | TypeError message
  | KeyError message
  | OtherError string

fun py_str :: "py_error \<Rightarrow> message" where
  "py_str (DownloadError m) = Plain m"
| "py_str (ValueError m) = m"
| "py_str (AttributeError m) = m"
| "py_str (TypeError m) = m"
| "py_str (KeyError m) = m"
| "py_str (OtherError m) = Plain m"

text \<open>
  \<open>int(s)\<close> on an ASCII string, base 10. White space at both ends is skipped, and for
  \<open>int\<close> that is TAB, LF, VT, FF, CR and SP only: the separators 0x1C to 0x1F, which
  \<open>str.strip\<close> removes, are invalid here. One sign is allowed, then come decimal digits, where
  a single underscore may stand between two digits. A literal of more than 4300 digits
  (leading zeros counted, underscores not) is refused, as the interpreter's default limit on
  integer string conversion has it. Every refusal is a ValueError.
\<close>

definition int_isspace_char :: "char \<Rightarrow> bool" where
  "int_isspace_char c =
     (c \<in> set [CHR 0x09, CHR 0x0A, CHR 0x0B, CHR 0x0C, CHR 0x0D, CHR 0x20])"

definition int_strip :: "string \<Rightarrow> string" where
  "int_strip s = rev (dropWhile int_isspace_char (rev (dropWhile int_isspace_char s)))"

definition max_str_digits :: nat where
  "max_str_digits = 4300"

fun digits_acc :: "nat \<Rightarrow> string \<Rightarrow> nat option" where
  "digits_acc acc [] = Some acc"
| "digits_acc acc [c] =
     (case digit_of c of None \<Rightarrow> None | Some v \<Rightarrow> Some (acc * 10 + v))"
| "digits_acc acc (c # d # ds) =
     (if c = CHR ''_''
      then (case digit_of d of None \<Rightarrow> None | Some v \<Rightarrow> digits_acc (acc * 10 + v) ds)
      else (case digit_of c of None \<Rightarrow> None | Some v \<Rightarrow> digits_acc (acc * 10 + v) (d # ds)))"

definition digits_val :: "string \<Rightarrow> nat option" where
  "digits_val s =
     (case s of [] \<Rightarrow> None
      | c # cs \<Rightarrow> (case digit_of c of None \<Rightarrow> None | Some v \<Rightarrow> digits_acc v cs))"

definition py_int :: "string \<Rightarrow> py_error + int" where
  "py_int s =
     (let t = int_strip s;
          negative = (case t of [] \<Rightarrow> False | c # cs \<Rightarrow> c = CHR ''-'');
          body = (case t of [] \<Rightarrow> []
                  | c # cs \<Rightarrow> if c = CHR ''-'' \<or> c = CHR ''+'' then cs else t)
      in case digits_val body of
           None \<Rightarrow> Inl (ValueError (Plain ''invalid literal for int() with base 10''))
         | Some n \<Rightarrow>
             if length (filter (\<lambda>c. c \<noteq> CHR ''_'') body) > max_str_digits
             then Inl (ValueError
                    (Plain ''Exceeds the limit (4300 digits) for integer string conversion''))
             else Inr (if negative then - int n else int n))"

section \<open>Quality normalisation: \_parse\_quality\<close>

definition k_formats :: "(string \<times> int) list" where
  "k_formats = [(''2k'', 1440), (''4k'', 2160), (''8k'', 4320), (''1k'', 1080)]"

definition aliases :: "(string \<times> int) list" where
  "aliases =
     [(''hd'', 720), (''high'', 720),
      (''fhd'', 1080), (''full hd'', 1080), (''fullhd'', 1080),
      (''qhd'', 1440), (''quad hd'', 1440), (''quadhd'', 1440),
      (''uhd'', 2160), (''ultra hd'', 2160), (''ultrahd'', 2160)]"

text \<open>The body of the \<open>try\<close> block of \<open>_parse_quality\<close>; \<open>Inl\<close> is a raised exception.\<close>

definition parse_quality_try :: "string \<Rightarrow> py_error + int" where
  "parse_quality_try quality_str =
     (if quality_str = [] then Inr 0
      else let quality_lower = py_strip (py_lower quality_str) in
        if py_endswith quality_lower ''p'' then py_int (butlast quality_lower)
        else case map_of k_formats quality_lower of
               Some h \<Rightarrow> Inr h
             | None \<Rightarrow>
                 if py_isdigit quality_lower then py_int quality_lower
                 else (case map_of aliases quality_lower of None \<Rightarrow> Inr 0 | Some h \<Rightarrow> Inr h))"

text \<open>
  \<open>_parse_quality\<close>: \<open>except (ValueError, AttributeError)\<close> logs a warning and returns 0;
  any other exception would leave the function. The memoisation by \<open>lru_cache\<close> does not
  change the value returned for a string and is not modelled.
\<close>

definition parse_quality :: "string \<Rightarrow> py_error + int" where
  "parse_quality quality_str =
     (case parse_quality_try quality_str of
        Inr h \<Rightarrow> Inr h
      | Inl (ValueError m) \<Rightarrow> Inr 0
      | Inl (AttributeError m) \<Rightarrow> Inr 0
      | Inl e \<Rightarrow> Inl e)"

section \<open>Data model\<close>

text \<open>
  A key of a provider dictionary is absent, present with the value \<open>None\<close>, or present
  with a value. \<open>py_get\<close> is \<open>d.get(k)\<close> and \<open>py_get_or\<close> is \<open>d.get(k, default)\<close>: the
  default stands in for an absent key only, a stored \<open>None\<close> comes back as \<open>None\<close>.
\<close>

datatype 'a field = Absent | Null | Val 'a

fun py_get :: "'a field \<Rightarrow> 'a option" where
  "py_get Absent = None"
| "py_get Null = None"
| "py_get (Val v) = Some v"

fun py_get_or :: "'a field \<Rightarrow> 'a \<Rightarrow> 'a option" where
  "py_get_or Absent d = Some d"
| "py_get_or Null d = None"
| "py_get_or (Val v) d = Some v"

text \<open>Truth value of an optional string and of an optional number; \<open>x or 0\<close>, \<open>x or ''\<close>.\<close>

fun truthy_str :: "string option \<Rightarrow> bool" where
  "truthy_str None = False"
| "truthy_str (Some s) = (s \<noteq> [])"

fun truthy_num :: "'a::zero option \<Rightarrow> bool" where
  "truthy_num None = False"
| "truthy_num (Some n) = (n \<noteq> 0)"

fun or_zero :: "'a::zero option \<Rightarrow> 'a" where
  "or_zero None = 0"
| "or_zero (Some n) = n"

fun or_empty :: "string option \<Rightarrow> string" where
  "or_empty None = []"
| "or_empty (Some s) = s"

text \<open>
  One format descriptor of the provider. Heights, widths and sizes are integers; the average
  bitrate \<open>tbr\<close> is a Python float, taken here as an exact rational (rounding is not modelled).
\<close>

record raw_format =
  fmt_vcodec :: "string field"
  fmt_acodec :: "string field"
  fmt_url :: "string field"
  fmt_ext :: "string field"
  fmt_height :: "int field"
  fmt_width :: "int field"
  fmt_tbr :: "rat field"
  fmt_filesize :: "int field"
  fmt_format_note :: "string field"
  fmt_format_id :: "string field"
  fmt_resolution :: "string field"

record StreamInfo =
  url :: "string option"
  ext :: "string option"
  resolution :: "string option"
  height :: "int option"
  width :: "int option"
  bitrate :: "rat option"
  codec :: "string option"
  filesize :: "int option"
  format_note :: "string option"
  format_id :: "string option"

text \<open>The dictionary returned by the provider's \<open>extract_info\<close>.\<close>

record video_info =
  info_formats :: "raw_format list field"
  info_duration :: "rat field"

text \<open>
  One call of \<open>extract_info\<close>: it returns a dictionary (\<open>Returns None\<close> is a result that is
  \<open>None\<close> or empty), raises \<open>yt_dlp.utils.DownloadError\<close>, or raises something else; the
  string is \<open>str(e)\<close>.
\<close>

datatype extract_result =
    Returns "video_info option"
  | RaisesDownloadError string
  | RaisesOther string

record extractor =
  max_retries :: int
  retry_delay :: rat
  debug :: bool

text \<open>Diagnostics: the severity and the text of the message as the source writes it.\<close>

datatype level = DEBUG | WARNING | ERROR

type_synonym diag = "level \<times> string"

section \<open>Python's min and max with a key\<close>

text \<open>Both keep the first element among equals, and raise ValueError on an empty list.\<close>

fun min_from :: "('a \<Rightarrow> 'k::linorder) \<Rightarrow> 'a \<Rightarrow> 'a list \<Rightarrow> 'a" where
  "min_from key best [] = best"
| "min_from key best (x # xs) = min_from key (if key x < key best then x else best) xs"

fun max_from :: "('a \<Rightarrow> 'k::linorder) \<Rightarrow> 'a \<Rightarrow> 'a list \<Rightarrow> 'a" where
  "max_from key best [] = best"
| "max_from key best (x # xs) = max_from key (if key best < key x then x else best) xs"

fun py_min :: "('a \<Rightarrow> 'k::linorder) \<Rightarrow> 'a list \<Rightarrow> py_error + 'a" where
  "py_min key [] = Inl (ValueError (Plain ''min() arg is an empty sequence''))"
| "py_min key (x # xs) = Inr (min_from key x xs)"

fun py_max :: "('a \<Rightarrow> 'k::linorder) \<Rightarrow> 'a list \<Rightarrow> py_error + 'a" where
  "py_max key [] = Inl (ValueError (Plain ''max() arg is an empty sequence''))"
| "py_max key (x # xs) = Inr (max_from key x xs)"

text \<open>
  Stated from the specification: the entry with the least (greatest) key, the first one in
  encounter order among equals.
\<close>

definition first_with_min :: "('a \<Rightarrow> 'k::linorder) \<Rightarrow> 'a list \<Rightarrow> 'a option" where
  "first_with_min key xs = List.find (\<lambda>x. key x = Min (set (map key xs))) xs"

definition first_with_max :: "('a \<Rightarrow> 'k::linorder) \<Rightarrow> 'a list \<Rightarrow> 'a option" where
  "first_with_max key xs = List.find (\<lambda>x. key x = Max (set (map key xs))) xs"

section \<open>The retrying fetch: \_get\_ytdlp\_info\<close>

text \<open>
  \<open>provider k\<close> is what the \<open>k\<close>-th call of \<open>extract_info\<close> does. The trace lists the calls
  and the sleeps in order. \<open>raise last_error\<close> with \<open>last_error = None\<close> is a TypeError.
\<close>

datatype event = Extract nat | Sleep rat

fun retry_loop ::
  "extractor \<Rightarrow> (nat \<Rightarrow> extract_result) \<Rightarrow> nat list \<Rightarrow> py_error option
     \<Rightarrow> event list \<times> (py_error + video_info)" where
  "retry_loop self provider [] last_error =
     ([], Inl (case last_error of
                 None \<Rightarrow> TypeError (Plain ''exceptions must derive from BaseException'')
               | Some e \<Rightarrow> e))"
| "retry_loop self provider (attempt # rest) last_error =
     (case provider attempt of
        Returns (Some info) \<Rightarrow> ([Extract attempt], Inr info)
      | Returns None \<Rightarrow>
          (case retry_loop self provider rest last_error of
             (evs, r) \<Rightarrow> (Extract attempt # evs, r))
      | RaisesDownloadError error_msg \<Rightarrow>
          (case retry_loop self provider rest (Some (DownloadError error_msg)) of
             (evs, r) \<Rightarrow>
               (Extract attempt #
                  (if int attempt < max_retries self - 1 then [Sleep (retry_delay self)] else [])
                  @ evs, r))
      | RaisesOther m \<Rightarrow> ([Extract attempt], Inl (OtherError m)))"

definition get_ytdlp_info ::
  "extractor \<Rightarrow> (nat \<Rightarrow> extract_result) \<Rightarrow> event list \<times> (py_error + video_info)" where
  "get_ytdlp_info self provider =
     retry_loop self provider [0 ..< nat (max_retries self)] None"

section \<open>Availability probe: check\_status\<close>

record status_result =
  available :: bool
  status :: string
  error :: "string option"

definition status_map :: "(string \<times> string) list" where
  "status_map =
     [(''Private video'', ''private''),
      (''Video unavailable'', ''unavailable''),
      (''age-restricted'', ''age_restricted''),
      (''removed'', ''removed'')]"

text \<open>\<open>next((v for k, v in status_map.items() if k in error_msg), "error")\<close>\<close>

definition classify :: "string \<Rightarrow> string" where
  "classify error_msg =
     (case filter (\<lambda>(k, v). py_in k error_msg) status_map of
        [] \<Rightarrow> ''error''
      | (k, v) # _ \<Rightarrow> v)"

definition check_status :: "extract_result \<Rightarrow> py_error + status_result" where
  "check_status r =
     (case r of
        Returns (Some info) \<Rightarrow>
          Inr \<lparr>available = True, status = ''available'', error = None\<rparr>
      | Returns None \<Rightarrow>
          Inr \<lparr>available = False, status = ''unavailable'',
               error = Some ''Video information not available''\<rparr>
      | RaisesDownloadError error_msg \<Rightarrow>
          Inr \<lparr>available = False, status = classify error_msg, error = Some error_msg\<rparr>
      | RaisesOther m \<Rightarrow>
          Inr \<lparr>available = False, status = ''error'',
               error = Some (''Unexpected error: '' @ m)\<rparr>)"

section \<open>Building a StreamInfo\<close>

text \<open>\<open>str(n)\<close> for an integer, as the f-strings of the resolution label use it.\<close>

function py_str_nat :: "nat \<Rightarrow> string" where
  "py_str_nat n =
     (if n < 10 then [''0123456789'' ! n]
      else py_str_nat (n div 10) @ [''0123456789'' ! (n mod 10)])"
  by pat_completeness auto
termination
  by (relation "measure id") auto

declare py_str_nat.simps [simp del]

definition py_str_int :: "int \<Rightarrow> string" where
  "py_str_int i = (if i < 0 then CHR ''-'' # py_str_nat (nat (- i)) else py_str_nat (nat i))"

text \<open>
  The resolution label, written the same way in \<open>get_video_streams\<close> and in the video worker:
  the provider's own label when it has one, else \<open>{width}x{height}\<close>, else \<open>{height}p\<close>.
  A parameter of the source that shares its name with a field of \<open>StreamInfo\<close> carries a
  prime here and below.
\<close>

definition build_resolution ::
  "string option \<Rightarrow> int option \<Rightarrow> int option \<Rightarrow> string option" where
  "build_resolution resolution' height' width' =
     (if \<not> truthy_str resolution' then
        (if truthy_num height' \<and> truthy_num width'
         then Some (py_str_int (or_zero width') @ ''x'' @ py_str_int (or_zero height'))
         else if truthy_num height' then Some (py_str_int (or_zero height') @ ''p'')
         else resolution')
      else resolution')"

section \<open>get\_video\_streams\<close>

text \<open>The body of the loop over \<open>info['formats']\<close>; \<open>None\<close> is \<open>continue\<close>.\<close>

definition video_stream_of :: "raw_format \<Rightarrow> StreamInfo option" where
  "video_stream_of fmt =
     (let vcodec = py_get (fmt_vcodec fmt) in
      if \<not> truthy_str vcodec \<or> vcodec = Some ''none'' then None
      else
        let height = py_get_or (fmt_height fmt) 0;
            width = py_get_or (fmt_width fmt) 0;
            url = py_get_or (fmt_url fmt) [] in
        if \<not> truthy_str url \<or> py_in ''manifest'' (or_empty url) then None
        else Some \<lparr>url = url,
                   ext = py_get_or (fmt_ext fmt) ''unknown'',
                   resolution = build_resolution (py_get (fmt_resolution fmt)) height width,
                   height = height,
                   width = width,
                   bitrate = py_get (fmt_tbr fmt),
                   codec = vcodec,
                   filesize = py_get (fmt_filesize fmt),
                   format_note = py_get (fmt_format_note fmt),
                   format_id = py_get (fmt_format_id fmt)\<rparr>)"

text \<open>
  The choice among the candidates, written the same way in \<open>get_video_streams\<close> and in the
  video worker: the exact matches first, the highest bitrate among them; else the closest height.
\<close>

definition best_video :: "int \<Rightarrow> StreamInfo list \<Rightarrow> py_error + StreamInfo" where
  "best_video target_height video_streams =
     (let exact_matches = filter (\<lambda>s. height s = Some target_height) video_streams in
      if exact_matches \<noteq> [] then py_max (\<lambda>x. or_zero (bitrate x)) exact_matches
      else py_min (\<lambda>x. \<bar>or_zero (height x) - target_height\<bar>) video_streams)"

text \<open>
  The two \<open>except\<close> clauses that close every public stream operation: a DownloadError is
  raised again, any other exception becomes a ValueError with a prefixed message.
\<close>

definition reraise :: "string \<Rightarrow> py_error + 'a \<Rightarrow> py_error + 'a" where
  "reraise pre r =
     (case r of
        Inr v \<Rightarrow> Inr v
      | Inl (DownloadError m) \<Rightarrow> Inl (DownloadError m)
      | Inl e \<Rightarrow> Inl (ValueError (Wrapped pre (py_str e))))"

definition get_video_streams ::
  "extractor \<Rightarrow> (nat \<Rightarrow> extract_result) \<Rightarrow> string \<Rightarrow> py_error + StreamInfo list" where
  "get_video_streams self provider quality =
     reraise ''Error getting video streams: ''
       (case snd (get_ytdlp_info self provider) of
          Inl e \<Rightarrow> Inl e
        | Inr info \<Rightarrow>
            (case info_formats info of
               Absent \<Rightarrow> Inl (ValueError (Plain ''No video streams found for the given video ID''))
             | Null \<Rightarrow>
                 (case parse_quality quality of
                    Inl e \<Rightarrow> Inl e
                  | Inr target_height \<Rightarrow>
                      Inl (TypeError (Plain ''NoneType object is not iterable'')))
             | Val formats \<Rightarrow>
                 (case parse_quality quality of
                    Inl e \<Rightarrow> Inl e
                  | Inr target_height \<Rightarrow>
                      let video_streams = List.map_filter video_stream_of formats in
                      if video_streams = []
                      then Inl (ValueError (Plain ''No video streams available for this video''))
                      else (case best_video target_height video_streams of
                              Inl e \<Rightarrow> Inl e
                            | Inr best_stream \<Rightarrow> Inr [best_stream]))))"

section \<open>get\_audio\_streams\<close>

definition audio_stream_of :: "raw_format \<Rightarrow> StreamInfo option" where
  "audio_stream_of fmt =
     (let acodec = py_get (fmt_acodec fmt) in
      if \<not> truthy_str acodec \<or> acodec = Some ''none'' then None
      else
        let current_bitrate = py_get_or (fmt_tbr fmt) 0 in
        if \<not> truthy_num current_bitrate \<or> or_zero current_bitrate \<le> 0 then None
        else
          let url = py_get_or (fmt_url fmt) [] in
          if \<not> truthy_str url then None
          else Some \<lparr>url = url,
                     ext = py_get_or (fmt_ext fmt) ''unknown'',
                     resolution = None,
                     height = None,
                     width = None,
                     bitrate = current_bitrate,
                     codec = acodec,
                     filesize = py_get (fmt_filesize fmt),
                     format_note = py_get (fmt_format_note fmt),
                     format_id = py_get (fmt_format_id fmt)\<rparr>)"

text \<open>The table \<open>codec_matches\<close> of \<open>get_audio_streams\<close>.\<close>

definition codec_matches :: "(string \<times> (StreamInfo \<Rightarrow> bool)) list" where
  "codec_matches =
     [(''aac'', \<lambda>x. py_in ''mp4a'' (py_lower (or_empty (codec x)))),
      (''mp4a'', \<lambda>x. py_in ''mp4a'' (py_lower (or_empty (codec x)))),
      (''opus'', \<lambda>x. py_in ''opus'' (py_lower (or_empty (codec x))))]"

text \<open>Whether a stream passes the codec filter of \<open>get_audio_streams\<close> for a given token.\<close>

definition audio_filter :: "string \<Rightarrow> StreamInfo \<Rightarrow> bool" where
  "audio_filter codec' s =
     (let codec_lower = py_lower codec' in
      case map_of codec_matches codec_lower of
        Some filter_func \<Rightarrow> filter_func s
      | None \<Rightarrow> py_in codec_lower (py_lower (or_empty (StreamInfo.codec s))))"

text \<open>
  From the codec filter to the return: the streams kept, the closest bitrate, and the
  diagnostics written on the way.
\<close>

definition select_audio ::
  "int \<Rightarrow> string option \<Rightarrow> StreamInfo list \<Rightarrow> diag list \<times> (py_error + StreamInfo list)" where
  "select_audio bitrate' codec' audio_streams =
     (let filtered_streams = filter (audio_filter (or_empty codec')) audio_streams;
          (msgs1, kept) =
             (if truthy_str codec' then
                (if filtered_streams \<noteq> []
                 then ([(DEBUG, ''Found {len(filtered_streams)} streams with codec {codec}'')],
                       filtered_streams)
                 else ([(WARNING, ''No streams found with codec {codec}, using best available'')],
                       audio_streams))
              else ([], audio_streams)) in
      case py_min (\<lambda>x. \<bar>or_zero (StreamInfo.bitrate x) - of_int bitrate'\<bar>) kept of
        Inl e \<Rightarrow> (msgs1, Inl e)
      | Inr best_match \<Rightarrow>
          (msgs1 @
             (if StreamInfo.bitrate best_match \<noteq> Some (of_int bitrate')
              then [(WARNING,
                     ''Requested bitrate {bitrate}kbps not available. Using: {best_match.bitrate}kbps'')]
              else []),
           Inr [best_match]))"

text \<open>The two \<open>except\<close> clauses of \<open>get_audio_streams\<close>, with the error they log.\<close>

definition audio_except ::
  "diag list \<times> (py_error + 'a) \<Rightarrow> diag list \<times> (py_error + 'a)" where
  "audio_except lr =
     (case lr of
        (msgs, Inr v) \<Rightarrow> (msgs, Inr v)
      | (msgs, Inl (DownloadError m)) \<Rightarrow>
          (msgs @ [(ERROR, ''Failed to get audio streams: {str(e)}'')], Inl (DownloadError m))
      | (msgs, Inl e) \<Rightarrow>
          (msgs @ [(ERROR, ''Unexpected error getting audio streams: {str(e)}'')],
           Inl (ValueError (Wrapped ''Error getting audio streams: '' (py_str e)))))"

definition get_audio_streams ::
  "extractor \<Rightarrow> (nat \<Rightarrow> extract_result) \<Rightarrow> int \<Rightarrow> string option
     \<Rightarrow> diag list \<times> (py_error + StreamInfo list)" where
  "get_audio_streams self provider bitrate' codec' =
     audio_except
       (let msgs0 = [(DEBUG, ''Getting audio streams for: {video_id}, bitrate: {bitrate}kbps{codec_info}'')] in
        case snd (get_ytdlp_info self provider) of
          Inl e \<Rightarrow> (msgs0, Inl e)
        | Inr info \<Rightarrow>
            (case info_formats info of
               Absent \<Rightarrow>
                 (msgs0, Inl (ValueError (Plain ''No audio streams found for the given video ID'')))
             | Null \<Rightarrow> (msgs0, Inl (TypeError (Plain ''NoneType object is not iterable'')))
             | Val formats \<Rightarrow>
                 let audio_streams = List.map_filter audio_stream_of formats in
                 if audio_streams = []
                 then (msgs0, Inl (ValueError (Plain ''No audio streams available for this video'')))
                 else (case select_audio bitrate' codec' audio_streams of
                         (msgs1, r) \<Rightarrow> (msgs0 @ msgs1, r))))"

section \<open>get\_unified\_streams\<close>

text \<open>
  The pre-filter over \<open>formats\<close>. \<open>fmt.get('tbr', 0) > 0\<close> compares \<open>None\<close> with 0 when the
  key is stored with \<open>None\<close>, which raises TypeError; the test is reached only for a format
  with a URL and an audio codec, when audio is requested.
\<close>

fun prefilter ::
  "bool \<Rightarrow> bool \<Rightarrow> raw_format list \<Rightarrow> raw_format list \<Rightarrow> raw_format list
     \<Rightarrow> py_error + (raw_format list \<times> raw_format list)" where
  "prefilter include_video include_audio [] video_formats audio_formats =
     Inr (video_formats, audio_formats)"
| "prefilter include_video include_audio (fmt # rest) video_formats audio_formats =
     (let vcodec = py_get (fmt_vcodec fmt);
          acodec = py_get (fmt_acodec fmt);
          url = py_get_or (fmt_url fmt) [] in
      if \<not> truthy_str url
      then prefilter include_video include_audio rest video_formats audio_formats
      else
        let video_formats2 =
              (if include_video \<and> truthy_str vcodec \<and> vcodec \<noteq> Some ''none''
                  \<and> \<not> py_in ''manifest'' (or_empty url) \<and> py_in ''videoplayback'' (or_empty url)
               then video_formats @ [fmt] else video_formats) in
        if include_audio \<and> truthy_str acodec \<and> acodec \<noteq> Some ''none''
        then (case py_get_or (fmt_tbr fmt) 0 of
                None \<Rightarrow>
                  Inl (TypeError (Plain ''> not supported between instances of NoneType and int''))
              | Some tbr \<Rightarrow>
                  prefilter include_video include_audio rest video_formats2
                    (if tbr > 0 then audio_formats @ [fmt] else audio_formats))
        else prefilter include_video include_audio rest video_formats2 audio_formats)"

text \<open>The codec tests of the two workers, on the lower-cased filter token and codec.\<close>

definition video_codec_match :: "string \<Rightarrow> string \<Rightarrow> bool" where
  "video_codec_match codec_lower vcodec_lower =
     (py_in codec_lower vcodec_lower \<or>
      (codec_lower \<in> set [''h264'', ''avc''] \<and> py_in ''avc1'' vcodec_lower) \<or>
      (codec_lower = ''vp9'' \<and> (py_in ''vp9'' vcodec_lower \<or> py_in ''vp09'' vcodec_lower)) \<or>
      (codec_lower \<in> set [''av1'', ''av01'']
         \<and> (py_in ''av01'' vcodec_lower \<or> py_in ''av1'' vcodec_lower)))"

definition audio_codec_match :: "string \<Rightarrow> string \<Rightarrow> bool" where
  "audio_codec_match codec_lower acodec_lower =
     (py_in codec_lower acodec_lower \<or>
      (codec_lower = ''aac'' \<and> py_in ''mp4a'' acodec_lower) \<or>
      (codec_lower = ''mp4a'' \<and> py_in ''mp4a'' acodec_lower) \<or>
      (codec_lower = ''opus'' \<and> py_in ''opus'' acodec_lower))"

text \<open>The \<open>StreamInfo\<close> the video worker builds from a format whose \<open>url\<close> key exists.\<close>

definition video_worker_stream :: "raw_format \<Rightarrow> StreamInfo" where
  "video_worker_stream fmt =
     (let height = py_get_or (fmt_height fmt) 0;
          width = py_get_or (fmt_width fmt) 0;
          vcodec = py_get_or (fmt_vcodec fmt) [] in
      \<lparr>url = py_get (fmt_url fmt),
       ext = py_get_or (fmt_ext fmt) ''unknown'',
       resolution = build_resolution (py_get (fmt_resolution fmt)) height width,
       height = height,
       width = width,
       bitrate = py_get (fmt_tbr fmt),
       codec = vcodec,
       filesize = py_get (fmt_filesize fmt),
       format_note = py_get (fmt_format_note fmt),
       format_id = py_get (fmt_format_id fmt)\<rparr>)"

text \<open>
  The loop of the video worker over \<open>video_formats\<close>. \<open>vcodec.lower()\<close> on \<open>None\<close> raises
  AttributeError and \<open>fmt['url']\<close> on a missing key raises KeyError.
\<close>

fun video_worker_loop ::
  "string option \<Rightarrow> raw_format list \<Rightarrow> StreamInfo list \<Rightarrow> py_error + StreamInfo list" where
  "video_worker_loop video_codec [] video_streams = Inr video_streams"
| "video_worker_loop video_codec (fmt # rest) video_streams =
     (let vcodec = py_get_or (fmt_vcodec fmt) [] in
      if truthy_str video_codec \<and> vcodec = None
      then Inl (AttributeError (Plain ''NoneType object has no attribute lower''))
      else if truthy_str video_codec
              \<and> \<not> video_codec_match (py_lower (or_empty video_codec)) (py_lower (or_empty vcodec))
      then video_worker_loop video_codec rest video_streams
      else if fmt_url fmt = Absent then Inl (KeyError (Plain ''url''))
      else video_worker_loop video_codec rest (video_streams @ [video_worker_stream fmt]))"

definition process_video_streams ::
  "raw_format list \<Rightarrow> string \<Rightarrow> string option \<Rightarrow> py_error + StreamInfo list" where
  "process_video_streams video_formats video_quality video_codec =
     (if video_formats = [] then Inl (ValueError (Plain ''No video formats available''))
      else
        case parse_quality video_quality of
          Inl e \<Rightarrow> Inl e
        | Inr target_height \<Rightarrow>
            (case video_worker_loop video_codec video_formats [] of
               Inl e \<Rightarrow> Inl e
             | Inr video_streams \<Rightarrow>
                 if video_streams = []
                 then Inl (ValueError
                        (Available ''No video streams available with codec'' video_codec
                           (set (map (\<lambda>fmt. py_get_or (fmt_vcodec fmt) []) video_formats))))
                 else (case best_video target_height video_streams of
                         Inl e \<Rightarrow> Inl e
                       | Inr best \<Rightarrow> Inr [best])))"

text \<open>The \<open>StreamInfo\<close> the audio worker builds from a format whose \<open>url\<close> key exists.\<close>

definition audio_worker_stream :: "raw_format \<Rightarrow> StreamInfo" where
  "audio_worker_stream fmt =
     (let current_bitrate = py_get_or (fmt_tbr fmt) 0;
          acodec = py_get_or (fmt_acodec fmt) [] in
      \<lparr>url = py_get (fmt_url fmt),
       ext = py_get_or (fmt_ext fmt) ''unknown'',
       resolution = None,
       height = None,
       width = None,
       bitrate = current_bitrate,
       codec = acodec,
       filesize = py_get (fmt_filesize fmt),
       format_note = py_get (fmt_format_note fmt),
       format_id = py_get (fmt_format_id fmt)\<rparr>)"

text \<open>The loop of the audio worker over \<open>audio_formats\<close>.\<close>

fun audio_worker_loop ::
  "string option \<Rightarrow> raw_format list \<Rightarrow> StreamInfo list \<Rightarrow> py_error + StreamInfo list" where
  "audio_worker_loop audio_codec [] audio_streams = Inr audio_streams"
| "audio_worker_loop audio_codec (fmt # rest) audio_streams =
     (let acodec = py_get_or (fmt_acodec fmt) [] in
      if truthy_str audio_codec \<and> acodec = None
      then Inl (AttributeError (Plain ''NoneType object has no attribute lower''))
      else if truthy_str audio_codec
              \<and> \<not> audio_codec_match (py_lower (or_empty audio_codec)) (py_lower (or_empty acodec))
      then audio_worker_loop audio_codec rest audio_streams
      else if fmt_url fmt = Absent then Inl (KeyError (Plain ''url''))
      else audio_worker_loop audio_codec rest (audio_streams @ [audio_worker_stream fmt]))"

text \<open>The audio worker, with the diagnostics it writes: two debug lines, or an error line.\<close>

definition process_audio_streams ::
  "raw_format list \<Rightarrow> int \<Rightarrow> string option \<Rightarrow> diag list \<times> (py_error + StreamInfo list)" where
  "process_audio_streams audio_formats audio_bitrate audio_codec =
     (let msgs0 = [(DEBUG, ''Audio worker: Processing audio streams'')];
          failed = (\<lambda>e. (msgs0 @ [(ERROR, ''Audio worker error: {str(e)}'')], Inl e)) in
      if audio_formats = [] then failed (ValueError (Plain ''No audio formats available''))
      else
        case audio_worker_loop audio_codec audio_formats [] of
          Inl e \<Rightarrow> failed e
        | Inr audio_streams \<Rightarrow>
            if audio_streams = []
            then failed (ValueError
                   (Available ''No audio streams available with codec'' audio_codec
                      (set (map (\<lambda>fmt. py_get_or (fmt_acodec fmt) []) audio_formats))))
            else (case py_min (\<lambda>x. \<bar>or_zero (bitrate x) - of_int audio_bitrate\<bar>) audio_streams of
                    Inl e \<Rightarrow> failed e
                  | Inr best_audio \<Rightarrow>
                      (msgs0 @ [(DEBUG,
                         ''Audio worker: Best match: {best_audio.bitrate}kbps ({best_audio.codec})'')],
                       Inr [best_audio])))"

text \<open>
  What \<open>future.result(timeout=20)\<close> gives for a branch: the worker's return value or the
  exception it raised, or a timeout. Whether a worker is late is not decided by the program:
  it is the input \<open>timed_out\<close> of the orchestrator.
\<close>

datatype stream_type = Video | Audio

datatype future_result = TimeoutError | Completed "py_error + StreamInfo list"

record unified_result =
  duration :: "rat option"
  video :: "StreamInfo list option"
  audio :: "StreamInfo list option"

fun capitalize :: "stream_type \<Rightarrow> string" where
  "capitalize Video = ''Video''"
| "capitalize Audio = ''Audio''"

fun store :: "stream_type \<Rightarrow> StreamInfo list \<Rightarrow> unified_result \<Rightarrow> unified_result" where
  "store Video streams result = result\<lparr>video := Some streams\<rparr>"
| "store Audio streams result = result\<lparr>audio := Some streams\<rparr>"

text \<open>The test that decides whether a failed branch ends the call.\<close>

definition only_branch :: "bool \<Rightarrow> bool \<Rightarrow> stream_type \<Rightarrow> bool" where
  "only_branch include_video include_audio stream_type =
     ((stream_type = Video \<and> \<not> include_audio) \<or> (stream_type = Audio \<and> \<not> include_video))"

text \<open>The loop over \<open>futures.items()\<close>.\<close>

fun await_futures ::
  "bool \<Rightarrow> bool \<Rightarrow> (stream_type \<times> future_result) list \<Rightarrow> unified_result
     \<Rightarrow> py_error + unified_result" where
  "await_futures include_video include_audio [] result = Inr result"
| "await_futures include_video include_audio ((stream_type, future) # rest) result =
     (case future of
        Completed (Inr streams) \<Rightarrow>
          await_futures include_video include_audio rest (store stream_type streams result)
      | TimeoutError \<Rightarrow>
          if only_branch include_video include_audio stream_type
          then Inl (ValueError (Plain (capitalize stream_type @ '' stream processing timed out'')))
          else await_futures include_video include_audio rest (store stream_type [] result)
      | Completed (Inl e) \<Rightarrow>
          if only_branch include_video include_audio stream_type
          then Inl e
          else await_futures include_video include_audio rest (store stream_type [] result))"

text \<open>\<open>not result.get(key)\<close>: the key is missing or the list is empty.\<close>

fun no_streams :: "StreamInfo list option \<Rightarrow> bool" where
  "no_streams None = True"
| "no_streams (Some streams) = (streams = [])"

text \<open>From the submission of the workers to the return of the merged result.\<close>

definition collect_results ::
  "bool \<Rightarrow> bool \<Rightarrow> future_result \<Rightarrow> future_result \<Rightarrow> rat option
     \<Rightarrow> py_error + unified_result" where
  "collect_results include_video include_audio video_future audio_future duration' =
     (let futures = (if include_video then [(Video, video_future)] else [])
                    @ (if include_audio then [(Audio, audio_future)] else []) in
      case await_futures include_video include_audio futures
             \<lparr>duration = duration', video = None, audio = None\<rparr> of
        Inl e \<Rightarrow> Inl e
      | Inr result \<Rightarrow>
          if include_video \<and> include_audio \<and> no_streams (video result) \<and> no_streams (audio result)
          then Inl (ValueError (Plain ''Failed to get both video and audio streams''))
          else Inr result)"

definition get_unified_streams ::
  "extractor \<Rightarrow> (nat \<Rightarrow> extract_result) \<Rightarrow> (stream_type \<Rightarrow> bool) \<Rightarrow> int \<Rightarrow> string
     \<Rightarrow> string option \<Rightarrow> string option \<Rightarrow> bool \<Rightarrow> bool \<Rightarrow> py_error + unified_result" where
  "get_unified_streams self provider timed_out audio_bitrate video_quality audio_codec
       video_codec include_video include_audio =
     (if \<not> include_video \<and> \<not> include_audio
      then Inl (ValueError (Plain ''At least one of include_video or include_audio must be True''))
      else
        reraise ''Error getting unified streams: ''
          (case snd (get_ytdlp_info self provider) of
             Inl e \<Rightarrow> Inl e
           | Inr info \<Rightarrow>
               let duration' = py_get_or (info_duration info) 0 in
               case py_get_or (info_formats info) [] of
                 None \<Rightarrow> Inl (ValueError (Plain ''No formats available for this video''))
               | Some [] \<Rightarrow> Inl (ValueError (Plain ''No formats available for this video''))
               | Some formats \<Rightarrow>
                 (case prefilter include_video include_audio formats [] [] of
                    Inl e \<Rightarrow> Inl e
                  | Inr (video_formats, audio_formats) \<Rightarrow>
                      collect_results include_video include_audio
                        (if timed_out Video then TimeoutError
                         else Completed
                                (process_video_streams video_formats video_quality video_codec))
                        (if timed_out Audio then TimeoutError
                         else Completed
                                (snd (process_audio_streams audio_formats audio_bitrate
                                        audio_codec)))
                        duration')))"

section \<open>Selection as the specification words it, and sample inputs\<close>

text \<open>
  Stated from the specification: among the candidates of exactly the target height, the one of
  highest bitrate; when there is none, the candidate of closest height. A missing bitrate or
  height counts as 0, and the first in encounter order wins among equals.
\<close>

definition spec_select_video :: "int \<Rightarrow> StreamInfo list \<Rightarrow> StreamInfo option" where
  "spec_select_video target candidates =
     (if \<exists>s \<in> set candidates. height s = Some target
      then first_with_max (\<lambda>s. or_zero (bitrate s))
             (filter (\<lambda>s. height s = Some target) candidates)
      else first_with_min (\<lambda>s. \<bar>or_zero (height s) - target\<bar>) candidates)"

text \<open>The dictionary with no key, and the extractor made by \<open>create_optimized_extractor\<close>.\<close>

definition no_keys :: raw_format where
  "no_keys =
     \<lparr>fmt_vcodec = Absent, fmt_acodec = Absent, fmt_url = Absent, fmt_ext = Absent,
      fmt_height = Absent, fmt_width = Absent, fmt_tbr = Absent, fmt_filesize = Absent,
      fmt_format_note = Absent, fmt_format_id = Absent, fmt_resolution = Absent\<rparr>"

definition create_optimized_extractor :: "bool \<Rightarrow> extractor" where
  "create_optimized_extractor debug' = \<lparr>max_retries = 3, retry_delay = 1 / 2, debug = debug'\<rparr>"

text \<open>Three video formats, as in the scenario of the specification.\<close>

definition sample_video_formats :: "raw_format list" where
  "sample_video_formats =
     [no_keys\<lparr>fmt_vcodec := Val ''avc1.64001F'', fmt_url := Val ''https://v/videoplayback?id=1'',
              fmt_height := Val 720, fmt_tbr := Val 2000\<rparr>,
      no_keys\<lparr>fmt_vcodec := Val ''avc1.640028'', fmt_url := Val ''https://v/videoplayback?id=2'',
              fmt_height := Val 1080, fmt_tbr := Val 4000\<rparr>,
      no_keys\<lparr>fmt_vcodec := Val ''vp09.00.40.08'', fmt_url := Val ''https://v/videoplayback?id=3'',
              fmt_height := Val 1080, fmt_tbr := Val 3000\<rparr>]"

definition sample_video_info :: video_info where
  "sample_video_info = \<lparr>info_formats = Val sample_video_formats, info_duration = Val 60\<rparr>"

definition sample_best_video :: StreamInfo where
  "sample_best_video =
     \<lparr>url = Some ''https://v/videoplayback?id=2'', ext = Some ''unknown'',
      resolution = Some ''1080p'', height = Some 1080, width = Some 0, bitrate = Some 4000,
      codec = Some ''avc1.640028'', filesize = None, format_note = None, format_id = None\<rparr>"

text \<open>The streams a branch ends up with: those of its worker, none after a timeout or an error.\<close>

fun streams_of :: "future_result \<Rightarrow> StreamInfo list" where
  "streams_of TimeoutError = []"
| "streams_of (Completed (Inl e)) = []"
| "streams_of (Completed (Inr ss)) = ss"

text \<open>
  Sample audio formats, the streams built from them, and a provider that answers every call
  with the given formats and a duration of 60 seconds. The last format is an HLS rendition:
  its URL points at a manifest.
\<close>

definition sample_opus_format :: raw_format where
  "sample_opus_format =
     no_keys\<lparr>fmt_acodec := Val ''opus'', fmt_url := Val ''https://v/videoplayback?id=9'',
             fmt_tbr := Val 128\<rparr>"

definition sample_opus_stream :: StreamInfo where
  "sample_opus_stream =
     \<lparr>url = Some ''https://v/videoplayback?id=9'', ext = Some ''unknown'', resolution = None,
      height = None, width = None, bitrate = Some 128, codec = Some ''opus'', filesize = None,
      format_note = None, format_id = None\<rparr>"

definition sample_aac_format :: raw_format where
  "sample_aac_format =
     no_keys\<lparr>fmt_acodec := Val ''aac'', fmt_url := Val ''https://v/videoplayback?id=8'',
             fmt_tbr := Val 96\<rparr>"

definition sample_aac_stream :: StreamInfo where
  "sample_aac_stream =
     \<lparr>url = Some ''https://v/videoplayback?id=8'', ext = Some ''unknown'', resolution = None,
      height = None, width = None, bitrate = Some 96, codec = Some ''aac'', filesize = None,
      format_note = None, format_id = None\<rparr>"

definition sample_hls_format :: raw_format where
  "sample_hls_format =
     no_keys\<lparr>fmt_vcodec := Val ''avc1.4d401f'', fmt_acodec := Val ''mp4a.40.2'',
             fmt_url := Val ''https://manifest.googlevideo.com/api/manifest/hls_playlist/itag/95'',
             fmt_height := Val 720, fmt_tbr := Val 128\<rparr>"

definition sample_hls_stream :: StreamInfo where
  "sample_hls_stream =
     \<lparr>url = Some ''https://manifest.googlevideo.com/api/manifest/hls_playlist/itag/95'',
      ext = Some ''unknown'', resolution = None, height = None, width = None,
      bitrate = Some 128, codec = Some ''mp4a.40.2'', filesize = None, format_note = None,
      format_id = None\<rparr>"

definition provider_of :: "raw_format list \<Rightarrow> nat \<Rightarrow> extract_result" where
  "provider_of formats k =
     Returns (Some \<lparr>info_formats = Val formats, info_duration = Val 60\<rparr>)"

section \<open>Properties of the quality normaliser\<close>

lemma py_int_cases: "(\<exists>m. py_int s = Inl (ValueError m)) \<or> (\<exists>i. py_int s = Inr i)"
  by (auto simp: py_int_def Let_def split: option.splits)

lemma parse_quality_try_cases:
  "(\<exists>m. parse_quality_try s = Inl (ValueError m)) \<or> (\<exists>i. parse_quality_try s = Inr i)"
  using py_int_cases[of "butlast (py_strip (py_lower s))"] py_int_cases[of "py_strip (py_lower s)"]
  unfolding parse_quality_try_def Let_def
  by (simp split: option.splits)

text \<open>\<open>_parse_quality\<close> returns an integer for every token: nothing it raises escapes.\<close>

lemma parse_quality_total: "\<exists>h. parse_quality s = Inr h"
  using parse_quality_try_cases[of s] by (auto simp: parse_quality_def)

text \<open>
  C3, at an input where the code leaves the claim. The token \<open>-5p\<close> ends in \<open>p\<close> and
  \<open>int\<close> accepts the signed prefix, so the height returned is \<open>-5\<close>, below 0. The
  neighbouring branch for plain numbers does not let a sign through: \<open>-5\<close> is not all digits
  and yields 0, as a prefix that is no number does (\<open>abcp\<close>); \<open>720p\<close> yields 720.
\<close>

theorem C3_signed_prefix_negative:
  "parse_quality ''-5p'' = Inr (- 5)
   \<and> parse_quality ''-5'' = Inr 0
   \<and> parse_quality ''abcp'' = Inr 0
   \<and> parse_quality ''720p'' = Inr 720"
  by code_simp

section \<open>Properties of the availability probe\<close>

lemma classify_chain:
  "classify m =
     (if py_in ''Private video'' m then ''private''
      else if py_in ''Video unavailable'' m then ''unavailable''
      else if py_in ''age-restricted'' m then ''age_restricted''
      else if py_in ''removed'' m then ''removed''
      else ''error'')"
  by (simp add: classify_def status_map_def)

text \<open>
  C9. \<open>check_status\<close> returns a result whatever the provider call does. For a provider
  download error it is \<open>available: false\<close> with the status of the first entry of the ordered
  table whose key occurs in the message, \<open>error\<close> when none does, and the message itself; so a
  message containing \<open>Private video\<close> gives the status \<open>private\<close>. Any other exception gives
  the status \<open>error\<close>, and its message behind the words \<open>Unexpected error:\<close>.
\<close>

theorem C9_check_status:
  "(\<exists>r. check_status x = Inr r)
   \<and> check_status (RaisesDownloadError m) =
       Inr \<lparr>available = False,
            status = (if py_in ''Private video'' m then ''private''
                      else if py_in ''Video unavailable'' m then ''unavailable''
                      else if py_in ''age-restricted'' m then ''age_restricted''
                      else if py_in ''removed'' m then ''removed''
                      else ''error''),
            error = Some m\<rparr>
   \<and> (py_in ''Private video'' m \<longrightarrow>
        (\<exists>r. check_status (RaisesDownloadError m) = Inr r
             \<and> \<not> available r \<and> status r = ''private''))
   \<and> check_status (RaisesOther m) =
       Inr \<lparr>available = False, status = ''error'',
            error = Some (''Unexpected error: '' @ m)\<rparr>"
proof -
  have a: "\<exists>r. check_status x = Inr r"
    by (cases x) (auto simp: check_status_def split: option.splits)
  have b: "check_status (RaisesDownloadError m) =
       Inr \<lparr>available = False,
            status = (if py_in ''Private video'' m then ''private''
                      else if py_in ''Video unavailable'' m then ''unavailable''
                      else if py_in ''age-restricted'' m then ''age_restricted''
                      else if py_in ''removed'' m then ''removed''
                      else ''error''),
            error = Some m\<rparr>"
    unfolding check_status_def classify_chain by simp
  have c: "py_in ''Private video'' m \<longrightarrow>
        (\<exists>r. check_status (RaisesDownloadError m) = Inr r
             \<and> \<not> available r \<and> status r = ''private'')"
    unfolding b by simp
  have d: "check_status (RaisesOther m) =
       Inr \<lparr>available = False, status = ''error'',
            error = Some (''Unexpected error: '' @ m)\<rparr>"
    by (simp add: check_status_def)
  from a b c d show ?thesis by blast
qed

theorem C9_check_status_witness:
  "py_in ''Private video'' ''ERROR: [youtube] abc: Private video. Sign in''
   \<and> check_status (RaisesDownloadError ''ERROR: [youtube] abc: Private video. Sign in'') =
       Inr \<lparr>available = False, status = ''private'',
            error = Some ''ERROR: [youtube] abc: Private video. Sign in''\<rparr>"
proof -
  have a: "py_in ''Private video'' ''ERROR: [youtube] abc: Private video. Sign in''"
    by code_simp
  from C9_check_status[of "RaisesOther []" "''ERROR: [youtube] abc: Private video. Sign in''"] a
  show ?thesis by simp
qed

section \<open>Properties of the retrying fetch\<close>

text \<open>
  C7, at an input where the code leaves the claim. With the default three attempts and a
  provider that returns an empty result every time, no download error is ever captured: the
  three calls are made without a sleep, and the closing \<open>raise last_error\<close> raises a TypeError
  instead of a download error. With a provider that raises a download error every time, the
  same loop sleeps between the attempts and raises the last error captured.
\<close>

theorem C7_exhausted_without_error:
  "get_ytdlp_info (create_optimized_extractor False) (\<lambda>k. Returns None) =
     ([Extract 0, Extract 1, Extract 2],
      Inl (TypeError (Plain ''exceptions must derive from BaseException'')))
   \<and> get_ytdlp_info (create_optimized_extractor False) (\<lambda>k. RaisesDownloadError ''HTTP Error 403'') =
     ([Extract 0, Sleep (1 / 2), Extract 1, Sleep (1 / 2), Extract 2],
      Inl (DownloadError ''HTTP Error 403''))"
  by code_simp

section \<open>Properties of the unified pre-filter\<close>

text \<open>
  C10, at an input where the code leaves the claim. The first format has an audio codec, a URL
  and the key \<open>tbr\<close> stored with \<open>None\<close>. With audio requested, the pre-filter of
  \<open>get_unified_streams\<close> raises a TypeError on it, which leaves the call as a ValueError; on the
  same formats \<open>get_audio_streams\<close> skips that format and returns the second one.
\<close>

theorem C10_null_tbr_raises:
  "get_unified_streams (create_optimized_extractor False)
     (\<lambda>k. Returns (Some \<lparr>info_formats = Val
        [no_keys\<lparr>fmt_acodec := Val ''opus'', fmt_url := Val ''https://a/1'', fmt_tbr := Null\<rparr>,
         no_keys\<lparr>fmt_acodec := Val ''mp4a.40.2'', fmt_url := Val ''https://a/2'',
                 fmt_tbr := Val 128\<rparr>],
        info_duration = Val 60\<rparr>))
     (\<lambda>b. False) 192 ''1080p'' None None False True
   = Inl (ValueError (Wrapped ''Error getting unified streams: ''
            (Plain ''> not supported between instances of NoneType and int'')))
  \<and> snd (get_audio_streams (create_optimized_extractor False)
     (\<lambda>k. Returns (Some \<lparr>info_formats = Val
        [no_keys\<lparr>fmt_acodec := Val ''opus'', fmt_url := Val ''https://a/1'', fmt_tbr := Null\<rparr>,
         no_keys\<lparr>fmt_acodec := Val ''mp4a.40.2'', fmt_url := Val ''https://a/2'',
                 fmt_tbr := Val 128\<rparr>],
        info_duration = Val 60\<rparr>))
     192 None)
   = Inr [\<lparr>url = Some ''https://a/2'', ext = Some ''unknown'', resolution = None, height = None,
           width = None, bitrate = Some 128, codec = Some ''mp4a.40.2'', filesize = None,
           format_note = None, format_id = None\<rparr>]"
  by code_simp

section \<open>Properties of min, max and the video selection\<close>

lemma min_from_mem: "min_from key b xs \<in> set (b # xs)"
  by (induction xs arbitrary: b) auto

lemma min_from_le: "y \<in> set (b # xs) \<Longrightarrow> key (min_from key b xs) \<le> key y"
proof (induction xs arbitrary: b y)
  case Nil then show ?case by simp
next
  case (Cons x xs)
  let ?b = "if key x < key b then x else b"
  have le: "key (min_from key ?b xs) \<le> key ?b" using Cons.IH[of ?b ?b] by simp
  from Cons.prems consider "y = b" | "y = x" | "y \<in> set xs" by auto
  then show ?case
  proof cases
    case 1 with le show ?thesis by (auto split: if_splits)
  next
    case 2 with le show ?thesis by (auto split: if_splits)
  next
    case 3 then show ?thesis using Cons.IH[of y ?b] by simp
  qed
qed

lemma min_from_split:
  "\<exists>pre post. b # xs = pre @ min_from key b xs # post
      \<and> (\<forall>y \<in> set pre. key (min_from key b xs) < key y)"
proof (induction xs arbitrary: b)
  case Nil
  show ?case by (rule exI[of _ "[]"]) simp
next
  case (Cons x xs)
  let ?b = "if key x < key b then x else b"
  let ?r = "min_from key ?b xs"
  from Cons.IH[of ?b] obtain pre post where
    sp: "?b # xs = pre @ ?r # post" and lt: "\<forall>y \<in> set pre. key ?r < key y" by blast
  have le: "key ?r \<le> key ?b" using min_from_le[of ?b ?b xs key] by simp
  show ?case
  proof (cases "key x < key b")
    case True
    then have "b # x # xs = (b # pre) @ ?r # post" using sp by simp
    moreover have "\<forall>y \<in> set (b # pre). key ?r < key y" using lt le True by auto
    moreover have "min_from key b (x # xs) = ?r" by simp
    ultimately show ?thesis by metis
  next
    case False
    then have rb: "?r = min_from key b xs" by simp
    have res: "min_from key b (x # xs) = min_from key b xs" using False by simp
    from False sp have sp': "b # xs = pre @ min_from key b xs # post" by simp
    from lt rb have lt': "\<forall>y \<in> set pre. key (min_from key b xs) < key y" by simp
    show ?thesis
    proof (cases pre)
      case Nil
      from sp'[unfolded Nil] have "b # xs = min_from key b xs # post"
        by (simp only: append_Nil)
      then have e: "min_from key b xs = b" by (metis list.inject)
      have "b # x # xs = [] @ min_from key b xs # (x # xs)" unfolding e by simp
      with res show ?thesis by (metis empty_iff empty_set)
    next
      case (Cons p pre')
      with sp' have pb: "p = b" and rest: "xs = pre' @ min_from key b xs # post" by auto
      have "key (min_from key b xs) < key b" using lt' Cons pb by simp
      moreover have "key b \<le> key x" using False by simp
      ultimately have ltx: "key (min_from key b xs) < key x" by simp
      have "b # x # xs = (b # x # pre') @ min_from key b xs # post" using rest by simp
      moreover have "\<forall>y \<in> set (b # x # pre'). key (min_from key b xs) < key y"
        using lt' Cons pb ltx by auto
      ultimately show ?thesis using res by metis
    qed
  qed
qed

lemma find_split:
  "(\<forall>y \<in> set pre. \<not> P y) \<Longrightarrow> P r \<Longrightarrow> List.find P (pre @ r # post) = Some r"
  by (induction pre) auto

lemma min_from_Min: "key (min_from key b xs) = Min (set (map key (b # xs)))"
proof -
  have "Min (key ` set (b # xs)) = key (min_from key b xs)"
  proof (rule Min_eqI)
    show "finite (key ` set (b # xs))" by simp
    show "\<And>y. y \<in> key ` set (b # xs) \<Longrightarrow> key (min_from key b xs) \<le> y"
      using min_from_le[of _ b xs key] by auto
    show "key (min_from key b xs) \<in> key ` set (b # xs)"
      using min_from_mem[of key b xs] by blast
  qed
  then show ?thesis by simp
qed

lemma py_min_first: "xs \<noteq> [] \<Longrightarrow> \<exists>r. py_min key xs = Inr r \<and> first_with_min key xs = Some r"
proof (cases xs)
  case Nil then show "xs \<noteq> [] \<Longrightarrow> ?thesis" by simp
next
  case (Cons b ys)
  let ?r = "min_from key b ys"
  from min_from_split[of b ys key] obtain pre post where
    sp: "b # ys = pre @ ?r # post" and lt: "\<forall>y \<in> set pre. key ?r < key y" by blast
  have M: "key ?r = Min (set (map key (b # ys)))" by (rule min_from_Min)
  have "List.find (\<lambda>x. key x = Min (set (map key (b # ys)))) (pre @ ?r # post) = Some ?r"
    by (rule find_split) (use lt M in auto)
  then have "first_with_min key (b # ys) = Some ?r"
    unfolding first_with_min_def using sp by simp
  with Cons show ?thesis by simp
qed

lemma max_from_mem: "max_from key b xs \<in> set (b # xs)"
  by (induction xs arbitrary: b) auto

lemma max_from_le: "y \<in> set (b # xs) \<Longrightarrow> key y \<le> key (max_from key b xs)"
proof (induction xs arbitrary: b y)
  case Nil then show ?case by simp
next
  case (Cons x xs)
  let ?b = "if key b < key x then x else b"
  have le: "key ?b \<le> key (max_from key ?b xs)" using Cons.IH[of ?b ?b] by simp
  from Cons.prems consider "y = b" | "y = x" | "y \<in> set xs" by auto
  then show ?case
  proof cases
    case 1 with le show ?thesis by (auto split: if_splits)
  next
    case 2 with le show ?thesis by (auto split: if_splits)
  next
    case 3 then show ?thesis using Cons.IH[of y ?b] by simp
  qed
qed

lemma max_from_split:
  "\<exists>pre post. b # xs = pre @ max_from key b xs # post
      \<and> (\<forall>y \<in> set pre. key y < key (max_from key b xs))"
proof (induction xs arbitrary: b)
  case Nil
  show ?case by (rule exI[of _ "[]"]) simp
next
  case (Cons x xs)
  let ?b = "if key b < key x then x else b"
  let ?r = "max_from key ?b xs"
  from Cons.IH[of ?b] obtain pre post where
    sp: "?b # xs = pre @ ?r # post" and lt: "\<forall>y \<in> set pre. key y < key ?r" by blast
  have le: "key ?b \<le> key ?r" using max_from_le[of ?b ?b xs key] by simp
  show ?case
  proof (cases "key b < key x")
    case True
    then have "b # x # xs = (b # pre) @ ?r # post" using sp by simp
    moreover have "\<forall>y \<in> set (b # pre). key y < key ?r" using lt le True by auto
    moreover have "max_from key b (x # xs) = ?r" by simp
    ultimately show ?thesis by metis
  next
    case False
    then have rb: "?r = max_from key b xs" by simp
    have res: "max_from key b (x # xs) = max_from key b xs" using False by simp
    from False sp have sp': "b # xs = pre @ max_from key b xs # post" by simp
    from lt rb have lt': "\<forall>y \<in> set pre. key y < key (max_from key b xs)" by simp
    show ?thesis
    proof (cases pre)
      case Nil
      from sp'[unfolded Nil] have "b # xs = max_from key b xs # post"
        by (simp only: append_Nil)
      then have e: "max_from key b xs = b" by (metis list.inject)
      have "b # x # xs = [] @ max_from key b xs # (x # xs)" unfolding e by simp
      with res show ?thesis by (metis empty_iff empty_set)
    next
      case (Cons p pre')
      with sp' have pb: "p = b" and rest: "xs = pre' @ max_from key b xs # post" by auto
      have "key b < key (max_from key b xs)" using lt' Cons pb by simp
      moreover have "key x \<le> key b" using False by simp
      ultimately have ltx: "key x < key (max_from key b xs)" by simp
      have "b # x # xs = (b # x # pre') @ max_from key b xs # post" using rest by simp
      moreover have "\<forall>y \<in> set (b # x # pre'). key y < key (max_from key b xs)"
        using lt' Cons pb ltx by auto
      ultimately show ?thesis using res by metis
    qed
  qed
qed

lemma max_from_Min: "key (max_from key b xs) = Max (set (map key (b # xs)))"
proof -
  have "Max (key ` set (b # xs)) = key (max_from key b xs)"
  proof (rule Max_eqI)
    show "finite (key ` set (b # xs))" by simp
    show "\<And>y. y \<in> key ` set (b # xs) \<Longrightarrow> y \<le> key (max_from key b xs)"
      using max_from_le[of _ b xs key] by auto
    show "key (max_from key b xs) \<in> key ` set (b # xs)"
      using max_from_mem[of key b xs] by blast
  qed
  then show ?thesis by simp
qed

lemma py_max_first: "xs \<noteq> [] \<Longrightarrow> \<exists>r. py_max key xs = Inr r \<and> first_with_max key xs = Some r"
proof (cases xs)
  case Nil then show "xs \<noteq> [] \<Longrightarrow> ?thesis" by simp
next
  case (Cons b ys)
  let ?r = "max_from key b ys"
  from max_from_split[of b ys key] obtain pre post where
    sp: "b # ys = pre @ ?r # post" and lt: "\<forall>y \<in> set pre. key y < key ?r" by blast
  have M: "key ?r = Max (set (map key (b # ys)))" by (rule max_from_Min)
  have "List.find (\<lambda>x. key x = Max (set (map key (b # ys)))) (pre @ ?r # post) = Some ?r"
    by (rule find_split) (use lt M in auto)
  then have "first_with_max key (b # ys) = Some ?r"
    unfolding first_with_max_def using sp by simp
  with Cons show ?thesis by simp
qed


lemma best_video_spec:
  assumes "video_streams \<noteq> []"
  shows "\<exists>best. best_video target video_streams = Inr best
           \<and> spec_select_video target video_streams = Some best"
proof (cases "\<exists>s \<in> set video_streams. height s = Some target")
  case True
  then have ne: "filter (\<lambda>s. height s = Some target) video_streams \<noteq> []"
    by (simp add: filter_empty_conv)
  from py_max_first[OF ne, of "\<lambda>x. or_zero (bitrate x)"] True ne
  show ?thesis by (simp add: best_video_def spec_select_video_def Let_def)
next
  case False
  then have e: "filter (\<lambda>s. height s = Some target) video_streams = []"
    by (simp add: filter_empty_conv)
  from py_min_first[OF assms, of "\<lambda>x. \<bar>or_zero (height x) - target\<bar>"] False e
  show ?thesis by (simp add: best_video_def spec_select_video_def Let_def)
qed

text \<open>
  C1. Whenever the candidate list is not empty, \<open>get_video_streams\<close> and the video worker of
  \<open>get_unified_streams\<close> return exactly one entry: if some candidate has exactly the target
  height, the first candidate of highest bitrate among those of that height (a missing bitrate
  counting as 0); otherwise the first candidate whose height is closest to the target (a
  missing height counting as 0). Heights are integers and bitrates are only compared, never
  subtracted, so no rounding enters this choice.
\<close>

theorem C1_video_selection:
  "(snd (get_ytdlp_info self provider) = Inr info \<and> info_formats info = Val formats
      \<and> parse_quality quality = Inr target \<and> List.map_filter video_stream_of formats \<noteq> []
    \<longrightarrow> (\<exists>best. get_video_streams self provider quality = Inr [best]
           \<and> spec_select_video target (List.map_filter video_stream_of formats) = Some best))
   \<and> (parse_quality video_quality = Inr target2
       \<and> video_worker_loop video_codec video_formats [] = Inr video_streams
       \<and> video_streams \<noteq> []
    \<longrightarrow> (\<exists>best. process_video_streams video_formats video_quality video_codec = Inr [best]
           \<and> spec_select_video target2 video_streams = Some best))"
proof (intro conjI impI)
  assume h: "snd (get_ytdlp_info self provider) = Inr info \<and> info_formats info = Val formats
      \<and> parse_quality quality = Inr target \<and> List.map_filter video_stream_of formats \<noteq> []"
  then have ne: "List.map_filter video_stream_of formats \<noteq> []" by simp
  from best_video_spec[OF ne, of target] obtain best where
    b: "best_video target (List.map_filter video_stream_of formats) = Inr best"
    and sp: "spec_select_video target (List.map_filter video_stream_of formats) = Some best"
    by blast
  have "get_video_streams self provider quality = Inr [best]"
    using h b by (simp add: get_video_streams_def reraise_def Let_def)
  with sp show "\<exists>best. get_video_streams self provider quality = Inr [best]
           \<and> spec_select_video target (List.map_filter video_stream_of formats) = Some best"
    by blast
next
  assume h: "parse_quality video_quality = Inr target2
       \<and> video_worker_loop video_codec video_formats [] = Inr video_streams
       \<and> video_streams \<noteq> []"
  then have ne: "video_streams \<noteq> []" by simp
  have vne: "video_formats \<noteq> []" using h by auto
  from best_video_spec[OF ne, of target2] obtain best where
    b: "best_video target2 video_streams = Inr best"
    and sp: "spec_select_video target2 video_streams = Some best"
    by blast
  have "process_video_streams video_formats video_quality video_codec = Inr [best]"
    using h b vne by (simp add: process_video_streams_def)
  with sp show "\<exists>best. process_video_streams video_formats video_quality video_codec = Inr [best]
           \<and> spec_select_video target2 video_streams = Some best"
    by blast
qed



text \<open>
  The scenario of the specification: heights 720, 1080, 1080 with bitrates 2000, 4000, 3000 and
  the target \<open>1080p\<close>; both paths return the entry of height 1080 and bitrate 4000.
\<close>

theorem C1_video_selection_witness:
  "get_video_streams (create_optimized_extractor False) (\<lambda>k. Returns (Some sample_video_info))
      ''1080p'' = Inr [sample_best_video]
   \<and> process_video_streams sample_video_formats ''1080p'' None = Inr [sample_best_video]"
proof -
  let ?self = "create_optimized_extractor False"
  let ?prov = "\<lambda>k::nat. Returns (Some sample_video_info)"
  have h1: "snd (get_ytdlp_info ?self ?prov) = Inr sample_video_info
      \<and> info_formats sample_video_info = Val sample_video_formats
      \<and> parse_quality ''1080p'' = Inr 1080
      \<and> List.map_filter video_stream_of sample_video_formats \<noteq> []"
    by code_simp
  have s1: "spec_select_video 1080 (List.map_filter video_stream_of sample_video_formats)
            = Some sample_best_video"
    by code_simp
  have h2: "parse_quality ''1080p'' = Inr 1080
      \<and> video_worker_loop None sample_video_formats []
          = Inr (map video_worker_stream sample_video_formats)
      \<and> map video_worker_stream sample_video_formats \<noteq> []"
    by code_simp
  have s2: "spec_select_video 1080 (map video_worker_stream sample_video_formats)
            = Some sample_best_video"
    by code_simp
  from C1_video_selection[of ?self ?prov sample_video_info sample_video_formats "''1080p''" 1080
      "''1080p''" 1080 None sample_video_formats "map video_worker_stream sample_video_formats"]
    h1 h2 s1 s2
  show ?thesis by auto
qed

section \<open>Properties of the unified orchestrator\<close>

lemma unified_reach:
  assumes "snd (get_ytdlp_info self provider) = Inr info"
    and "py_get_or (info_formats info) [] = Some formats"
    and "formats \<noteq> []"
    and "prefilter iv ia formats [] [] = Inr (vf, af)"
    and "iv \<or> ia"
  shows "get_unified_streams self provider timed_out ab vq ac vc iv ia =
     reraise ''Error getting unified streams: ''
       (collect_results iv ia
          (if timed_out Video then TimeoutError else Completed (process_video_streams vf vq vc))
          (if timed_out Audio then TimeoutError
           else Completed (snd (process_audio_streams af ab ac)))
          (py_get_or (info_duration info) 0))"
  using assms
  by (cases formats) (auto simp: get_unified_streams_def Let_def)

lemma process_video_streams_single:
  "process_video_streams vf vq vc = Inr ss \<Longrightarrow> \<exists>b. ss = [b]"
  by (auto simp: process_video_streams_def split: if_splits sum.splits)

lemma process_audio_streams_single:
  "snd (process_audio_streams af ab ac) = Inr ss \<Longrightarrow> \<exists>b. ss = [b]"
  by (auto simp: process_audio_streams_def Let_def split: if_splits sum.splits)

lemma collect_video_only:
  "collect_results True False vfut afut d =
     (case vfut of
        TimeoutError \<Rightarrow> Inl (ValueError (Plain ''Video stream processing timed out''))
      | Completed (Inl e) \<Rightarrow> Inl e
      | Completed (Inr ss) \<Rightarrow> Inr \<lparr>duration = d, video = Some ss, audio = None\<rparr>)"
  by (simp add: collect_results_def only_branch_def split: future_result.splits sum.splits)

lemma collect_audio_only:
  "collect_results False True vfut afut d =
     (case afut of
        TimeoutError \<Rightarrow> Inl (ValueError (Plain ''Audio stream processing timed out''))
      | Completed (Inl e) \<Rightarrow> Inl e
      | Completed (Inr ss) \<Rightarrow> Inr \<lparr>duration = d, video = None, audio = Some ss\<rparr>)"
  by (simp add: collect_results_def only_branch_def split: future_result.splits sum.splits)

lemma collect_both:
  "collect_results True True vfut afut d =
     (if streams_of vfut = [] \<and> streams_of afut = []
      then Inl (ValueError (Plain ''Failed to get both video and audio streams''))
      else Inr \<lparr>duration = d, video = Some (streams_of vfut), audio = Some (streams_of afut)\<rparr>)"
  by (cases vfut; cases afut)
     (auto simp: collect_results_def only_branch_def split: sum.splits)

lemma isl_reraise: "isl (reraise pre r) = isl r"
  by (auto simp: reraise_def split: sum.splits py_error.splits)

lemma reraise_Inr: "reraise pre (Inr v) = Inr v"
  by (simp add: reraise_def)


text \<open>
  C6. Once the shared fetch and the pre-filter have succeeded, a branch fails when it times
  out or its worker raises. If the failed branch is the only one requested, the whole call
  fails; if it does not fail, the call returns its streams. When both branches are requested,
  a failed branch is recorded as the empty list and the call goes on: it returns the other
  branch's streams beside the empty list, and it fails only when both branches have failed.
\<close>

theorem C6_unified_partial_failure:
  "snd (get_ytdlp_info self provider) = Inr info
   \<and> py_get_or (info_formats info) [] = Some formats \<and> formats \<noteq> []
   \<and> prefilter include_video include_audio formats [] [] = Inr (video_formats, audio_formats)
   \<longrightarrow>
   (let V = process_video_streams video_formats video_quality video_codec;
        A = snd (process_audio_streams audio_formats audio_bitrate audio_codec);
        video_failed = (timed_out Video \<or> isl V);
        audio_failed = (timed_out Audio \<or> isl A);
        d = py_get_or (info_duration info) 0;
        G = get_unified_streams self provider timed_out audio_bitrate video_quality audio_codec
              video_codec include_video include_audio
    in (include_video \<and> \<not> include_audio \<longrightarrow>
          (if video_failed then isl G
           else G = Inr \<lparr>duration = d, video = Some (projr V), audio = None\<rparr>))
     \<and> (\<not> include_video \<and> include_audio \<longrightarrow>
          (if audio_failed then isl G
           else G = Inr \<lparr>duration = d, video = None, audio = Some (projr A)\<rparr>))
     \<and> (include_video \<and> include_audio \<longrightarrow>
          G = (if video_failed \<and> audio_failed
               then Inl (ValueError (Wrapped ''Error getting unified streams: ''
                      (Plain ''Failed to get both video and audio streams'')))
               else Inr \<lparr>duration = d,
                         video = Some (if video_failed then [] else projr V),
                         audio = Some (if audio_failed then [] else projr A)\<rparr>)))"
proof (intro impI)
  assume h: "snd (get_ytdlp_info self provider) = Inr info
   \<and> py_get_or (info_formats info) [] = Some formats \<and> formats \<noteq> []
   \<and> prefilter include_video include_audio formats [] [] = Inr (video_formats, audio_formats)"
  let ?V = "process_video_streams video_formats video_quality video_codec"
  let ?A = "snd (process_audio_streams audio_formats audio_bitrate audio_codec)"
  let ?vfut = "if timed_out Video then TimeoutError else Completed ?V"
  let ?afut = "if timed_out Audio then TimeoutError else Completed ?A"
  let ?d = "py_get_or (info_duration info) 0"
  let ?G = "get_unified_streams self provider timed_out audio_bitrate video_quality audio_codec
              video_codec include_video include_audio"
  have reach: "include_video \<or> include_audio \<Longrightarrow>
      ?G = reraise ''Error getting unified streams: ''
             (collect_results include_video include_audio ?vfut ?afut ?d)"
    using h unified_reach[where self = self and provider = provider and info = info
        and formats = formats and iv = include_video and ia = include_audio
        and vf = video_formats and af = audio_formats and timed_out = timed_out
        and ab = audio_bitrate and vq = video_quality and ac = audio_codec and vc = video_codec]
    by simp
  have sv: "streams_of ?vfut = (if timed_out Video \<or> isl ?V then [] else projr ?V)"
    by (cases ?V) auto
  have sa: "streams_of ?afut = (if timed_out Audio \<or> isl ?A then [] else projr ?A)"
    by (cases ?A) auto
  have nv: "\<not> isl ?V \<Longrightarrow> projr ?V \<noteq> []"
    using process_video_streams_single[of video_formats video_quality video_codec]
    by (cases ?V) auto
  have na: "\<not> isl ?A \<Longrightarrow> projr ?A \<noteq> []"
    using process_audio_streams_single[of audio_formats audio_bitrate audio_codec]
    by (cases ?A) auto
  have c1: "include_video \<and> \<not> include_audio \<longrightarrow>
          (if timed_out Video \<or> isl ?V then isl ?G
           else ?G = Inr \<lparr>duration = ?d, video = Some (projr ?V), audio = None\<rparr>)"
  proof
    assume f: "include_video \<and> \<not> include_audio"
    then have g: "?G = reraise ''Error getting unified streams: ''
             (collect_results True False ?vfut ?afut ?d)"
      using reach by simp
    show "if timed_out Video \<or> isl ?V then isl ?G
           else ?G = Inr \<lparr>duration = ?d, video = Some (projr ?V), audio = None\<rparr>"
      unfolding g collect_video_only
      by (cases ?V) (auto simp: isl_reraise reraise_Inr)
  qed
  have c2: "\<not> include_video \<and> include_audio \<longrightarrow>
          (if timed_out Audio \<or> isl ?A then isl ?G
           else ?G = Inr \<lparr>duration = ?d, video = None, audio = Some (projr ?A)\<rparr>)"
  proof
    assume f: "\<not> include_video \<and> include_audio"
    then have g: "?G = reraise ''Error getting unified streams: ''
             (collect_results False True ?vfut ?afut ?d)"
      using reach by simp
    show "if timed_out Audio \<or> isl ?A then isl ?G
           else ?G = Inr \<lparr>duration = ?d, video = None, audio = Some (projr ?A)\<rparr>"
      unfolding g collect_audio_only
      by (cases ?A) (auto simp: isl_reraise reraise_Inr)
  qed
  have c3: "include_video \<and> include_audio \<longrightarrow>
          ?G = (if (timed_out Video \<or> isl ?V) \<and> (timed_out Audio \<or> isl ?A)
               then Inl (ValueError (Wrapped ''Error getting unified streams: ''
                      (Plain ''Failed to get both video and audio streams'')))
               else Inr \<lparr>duration = ?d,
                         video = Some (if timed_out Video \<or> isl ?V then [] else projr ?V),
                         audio = Some (if timed_out Audio \<or> isl ?A then [] else projr ?A)\<rparr>)"
  proof
    assume f: "include_video \<and> include_audio"
    then have g: "?G = reraise ''Error getting unified streams: ''
             (collect_results True True ?vfut ?afut ?d)"
      using reach by simp
    show "?G = (if (timed_out Video \<or> isl ?V) \<and> (timed_out Audio \<or> isl ?A)
               then Inl (ValueError (Wrapped ''Error getting unified streams: ''
                      (Plain ''Failed to get both video and audio streams'')))
               else Inr \<lparr>duration = ?d,
                         video = Some (if timed_out Video \<or> isl ?V then [] else projr ?V),
                         audio = Some (if timed_out Audio \<or> isl ?A then [] else projr ?A)\<rparr>)"
      unfolding g collect_both sv sa
      using nv na by (auto simp: reraise_def)
  qed
  from c1 c2 c3 show "let V = ?V; A = ?A;
        video_failed = (timed_out Video \<or> isl V);
        audio_failed = (timed_out Audio \<or> isl A);
        d = ?d; G = ?G
    in (include_video \<and> \<not> include_audio \<longrightarrow>
          (if video_failed then isl G
           else G = Inr \<lparr>duration = d, video = Some (projr V), audio = None\<rparr>))
     \<and> (\<not> include_video \<and> include_audio \<longrightarrow>
          (if audio_failed then isl G
           else G = Inr \<lparr>duration = d, video = None, audio = Some (projr A)\<rparr>))
     \<and> (include_video \<and> include_audio \<longrightarrow>
          G = (if video_failed \<and> audio_failed
               then Inl (ValueError (Wrapped ''Error getting unified streams: ''
                      (Plain ''Failed to get both video and audio streams'')))
               else Inr \<lparr>duration = d,
                         video = Some (if video_failed then [] else projr V),
                         audio = Some (if audio_failed then [] else projr A)\<rparr>))"
    unfolding Let_def by blast
qed



text \<open>
  With three video formats and one audio format, both branches requested and the audio branch
  timing out, the call returns the chosen video stream and \<open>audio = []\<close>; with video alone
  requested and timing out, the call fails.
\<close>

theorem C6_unified_partial_failure_witness:
  "get_unified_streams (create_optimized_extractor False)
      (provider_of (sample_video_formats @ [sample_opus_format]))
      (\<lambda>b. b = Audio) 128 ''1080p'' None None True True =
     Inr \<lparr>duration = Some 60, video = Some [sample_best_video], audio = Some []\<rparr>
   \<and> isl (get_unified_streams (create_optimized_extractor False)
      (provider_of (sample_video_formats @ [sample_opus_format]))
      (\<lambda>b. b = Video) 128 ''1080p'' None None True False)"
proof -
  let ?self = "create_optimized_extractor False"
  let ?fs = "sample_video_formats @ [sample_opus_format]"
  let ?info = "\<lparr>info_formats = Val ?fs, info_duration = Val 60\<rparr>"
  have h1: "snd (get_ytdlp_info ?self (provider_of ?fs)) = Inr ?info
     \<and> py_get_or (info_formats ?info) [] = Some ?fs \<and> ?fs \<noteq> []
     \<and> prefilter True True ?fs [] [] = Inr (sample_video_formats, [sample_opus_format])"
    by code_simp
  have h2: "snd (get_ytdlp_info ?self (provider_of ?fs)) = Inr ?info
     \<and> py_get_or (info_formats ?info) [] = Some ?fs \<and> ?fs \<noteq> []
     \<and> prefilter True False ?fs [] [] = Inr (sample_video_formats, [])"
    by code_simp
  have v: "process_video_streams sample_video_formats ''1080p'' None = Inr [sample_best_video]"
    by code_simp
  have d: "py_get_or (info_duration ?info) 0 = Some 60" by simp
  have a: "get_unified_streams ?self (provider_of ?fs) (\<lambda>b. b = Audio) 128 ''1080p'' None None
             True True =
           Inr \<lparr>duration = Some 60, video = Some [sample_best_video], audio = Some []\<rparr>"
    using C6_unified_partial_failure[where self = ?self and provider = "provider_of ?fs"
        and info = ?info and formats = ?fs and include_video = True and include_audio = True
        and video_formats = sample_video_formats and audio_formats = "[sample_opus_format]"
        and timed_out = "\<lambda>b. b = Audio" and video_quality = "''1080p''"
        and video_codec = None and audio_bitrate = 128 and audio_codec = None] h1 v d
    by (simp add: Let_def)
  have b: "isl (get_unified_streams ?self (provider_of ?fs) (\<lambda>b. b = Video) 128 ''1080p'' None
             None True False)"
    using C6_unified_partial_failure[where self = ?self and provider = "provider_of ?fs"
        and info = ?info and formats = ?fs and include_video = True and include_audio = False
        and video_formats = sample_video_formats and audio_formats = "[]"
        and timed_out = "\<lambda>b. b = Video" and video_quality = "''1080p''"
        and video_codec = None and audio_bitrate = 128 and audio_codec = None] h2
    by (simp add: Let_def)
  from a b show ?thesis by simp
qed

section \<open>A codec filter that excludes every candidate\<close>












section \<open>The diagnostic for a bitrate that is not available\<close>

text \<open>
  C2, at an input where the code leaves the claim. The only audio candidate has the bitrate
  128 and 192 is requested. The audio worker of \<open>get_unified_streams\<close> returns the
  candidate and writes two debug lines, no warning; \<open>get_audio_streams\<close> returns the same
  candidate and writes the warning.
\<close>

theorem C2_unified_audio_no_warning:
  "process_audio_streams [sample_opus_format] 192 None =
     ([(DEBUG, ''Audio worker: Processing audio streams''),
       (DEBUG, ''Audio worker: Best match: {best_audio.bitrate}kbps ({best_audio.codec})'')],
      Inr [sample_opus_stream])
   \<and> bitrate sample_opus_stream = Some 128
   \<and> get_unified_streams (create_optimized_extractor False) (provider_of [sample_opus_format])
        (\<lambda>b. False) 192 ''1080p'' None None False True =
       Inr \<lparr>duration = Some 60, video = None, audio = Some [sample_opus_stream]\<rparr>
   \<and> get_audio_streams (create_optimized_extractor False) (provider_of [sample_opus_format])
        192 None =
     ([(DEBUG, ''Getting audio streams for: {video_id}, bitrate: {bitrate}kbps{codec_info}''),
       (WARNING,
        ''Requested bitrate {bitrate}kbps not available. Using: {best_match.bitrate}kbps'')],
      Inr [sample_opus_stream])"
  by code_simp

section \<open>The codec filter of get\_audio\_streams\<close>

text \<open>
  C4, at an input where the code leaves the claim. The filter token \<open>aac\<close> is a plain
  substring of the codec \<open>aac\<close> of the first candidate. \<open>get_audio_streams\<close> looks the token
  up in its table and tests only for \<open>mp4a\<close>: no candidate passes, it warns and returns the
  opus candidate, closest to the 128 requested. The audio worker of \<open>get_unified_streams\<close>
  tests the plain substring as well and returns the aac candidate.
\<close>

theorem C4_aac_token_alias_only:
  "py_in (py_lower ''aac'') (py_lower (or_empty (codec sample_aac_stream)))
   \<and> get_audio_streams (create_optimized_extractor False)
        (provider_of [sample_aac_format, sample_opus_format]) 128 (Some ''aac'') =
     ([(DEBUG, ''Getting audio streams for: {video_id}, bitrate: {bitrate}kbps{codec_info}''),
       (WARNING, ''No streams found with codec {codec}, using best available'')],
      Inr [sample_opus_stream])
   \<and> snd (process_audio_streams [sample_aac_format, sample_opus_format] 128 (Some ''aac''))
       = Inr [sample_aac_stream]"
  by code_simp

section \<open>Manifest URLs in the audio paths\<close>

text \<open>
  C8, at an input where the code leaves the claim. The format is an HLS rendition with a
  video and an audio codec, whose URL contains \<open>manifest\<close>. \<open>get_audio_streams\<close> and the
  audio branch of \<open>get_unified_streams\<close> return a stream with that URL; \<open>get_video_streams\<close>
  skips the format for its URL and finds no stream.
\<close>

theorem C8_audio_manifest_url:
  "snd (get_audio_streams (create_optimized_extractor False) (provider_of [sample_hls_format])
          128 None) = Inr [sample_hls_stream]
   \<and> get_unified_streams (create_optimized_extractor False) (provider_of [sample_hls_format])
        (\<lambda>b. False) 128 ''720p'' None None False True =
       Inr \<lparr>duration = Some 60, video = None, audio = Some [sample_hls_stream]\<rparr>
   \<and> py_in ''manifest'' (or_empty (url sample_hls_stream))
   \<and> get_video_streams (create_optimized_extractor False) (provider_of [sample_hls_format])
        ''720p'' =
       Inl (ValueError (Wrapped ''Error getting video streams: ''
              (Plain ''No video streams available for this video'')))"
  by code_simp

end
